theory Spec2Isabelle
  imports Main
begin

section \<open>Python values, exceptions and HTTP messages\<close>

text \<open>
  The client of \<^verbatim>\<open>dojima/brokers/ledgerx.py\<close> handles untyped Python values: the
  arguments of the endpoint methods, the parameter mappings built from them and the
  parsed JSON of a response. A dict is an association list in insertion order.
\<close>

datatype pyval =
    PyNone
  | PyBool bool
  | PyInt int
  | PyStr string
  | PyDatetime int
  | PyList "pyval list"
  | PyDict "(string \<times> pyval) list"

text \<open>
  The exceptions that can occur: \<open>HTTPError\<close> with its message (raised by
  \<^verbatim>\<open>Response.raise_for_status\<close>), a failure of \<^verbatim>\<open>Response.json\<close>, an attribute that
  an object does not have, and any failure of the transport itself.
\<close>

datatype exn =
    HTTPError string
  | JSONDecodeError
  | AttributeError
  | RequestException

text \<open>
  What \<^verbatim>\<open>Session.request(method, url, **opts)\<close> is called with: the two positional
  arguments and the keyword arguments \<^verbatim>\<open>opts\<close>.
\<close>

record request =
  req_method :: string
  req_url :: string
  req_kwargs :: "(string \<times> pyval) list"

text \<open>
  A \<^verbatim>\<open>requests.Response\<close>: the attributes the client reads, and the outcome of
  \<^verbatim>\<open>response.json()\<close> (the JSON parser itself is not part of the client).
\<close>

record Response =
  status_code :: int
  reason :: string
  resp_url :: string
  body_text :: string
  json :: "exn + pyval"

section \<open>Objects and the store\<close>

text \<open>
  A \<^verbatim>\<open>Session\<close> is the mutable connection handle; of its state the model keeps the
  requests sent through it. A \<^verbatim>\<open>LedgerX\<close> instance has the two fields \<^verbatim>\<open>_jwt_token\<close> and
  \<^verbatim>\<open>_session\<close>, the latter a reference to a \<^verbatim>\<open>Session\<close> object.
\<close>

record Session =
  sent :: "request list"

record LedgerX =
  jwt_token :: string
  session :: nat

datatype obj = SessionObj Session | LedgerXObj LedgerX

record world =
  heap :: "nat \<Rightarrow> obj option"
  next_ref :: nat
  stdout :: string

text \<open>
  The remote side: given the requests already sent on the connection and the present
  one, it answers with a response or the transport fails.
\<close>

type_synonym exchange = "request list \<Rightarrow> request \<Rightarrow> exn + Response"

section \<open>Library functions used by the client\<close>

text \<open>
  \<^verbatim>\<open>str.upper\<close> on the letters a to z, which decide the comparison with \<^verbatim>\<open>GET\<close> and
  \<^verbatim>\<open>DELETE\<close>; every other character is left as it is.
\<close>

definition upper_char :: "char \<Rightarrow> char" where
  "upper_char c =
     (let n = (of_char c :: nat) in if 97 \<le> n \<and> n \<le> 122 then char_of (n - 32) else c)"

definition upper :: "string \<Rightarrow> string" where
  "upper s = map upper_char s"

text \<open>\<^verbatim>\<open>str(n)\<close> of an integer, in decimal.\<close>

fun str_nat :: "nat \<Rightarrow> string" where
  "str_nat n =
     (if n < 10 then [char_of (48 + n)] else str_nat (n div 10) @ [char_of (48 + n mod 10)])"

declare str_nat.simps [simp del]

definition str_int :: "int \<Rightarrow> string" where
  "str_int i = (if i < 0 then CHR ''-'' # str_nat (nat (- i)) else str_nat (nat i))"

text \<open>\<^verbatim>\<open>dict.get(key)\<close>; a value that is not a dict has no such method.\<close>

fun get :: "pyval \<Rightarrow> string \<Rightarrow> exn + pyval" where
  "get (PyDict kvs) k = Inr (case map_of kvs k of None \<Rightarrow> PyNone | Some v \<Rightarrow> v)"
| "get _ k = Inl AttributeError"

text \<open>
  \<^verbatim>\<open>Response.raise_for_status\<close> of the requests library: an \<open>HTTPError\<close> for a status
  code from 400 to 599, with the library's message, and nothing otherwise.
\<close>

definition raise_for_status :: "Response \<Rightarrow> exn + unit" where
  "raise_for_status r =
     (let http_error_msg =
        (if 400 \<le> status_code r \<and> status_code r < 500
         then str_int (status_code r) @ '' Client Error: '' @ reason r @ '' for url: '' @ resp_url r
         else if 500 \<le> status_code r \<and> status_code r < 600
         then str_int (status_code r) @ '' Server Error: '' @ reason r @ '' for url: '' @ resp_url r
         else '''')
      in if http_error_msg \<noteq> '''' then Inl (HTTPError http_error_msg) else Inr ())"

text \<open>
  \<^verbatim>\<open>Session.request\<close>: the call is recorded in the session object, which is updated in
  place, and the remote side decides the outcome.
\<close>

definition Session_request ::
  "exchange \<Rightarrow> nat \<Rightarrow> string \<Rightarrow> string \<Rightarrow> (string \<times> pyval) list \<Rightarrow> world
     \<Rightarrow> (exn + Response) \<times> world" where
  "Session_request ex s method url opts w =
     (case heap w s of
        Some (SessionObj ss) \<Rightarrow>
          (let rq = \<lparr>req_method = method, req_url = url, req_kwargs = opts\<rparr>
           in (ex (sent ss) rq,
               w\<lparr>heap := (heap w)(s \<mapsto> SessionObj (ss\<lparr>sent := sent ss @ [rq]\<rparr>))\<rparr>))
      | _ \<Rightarrow> (Inl AttributeError, w))"

section \<open>The client\<close>

text \<open>\<^verbatim>\<open>LedgerX.__init__\<close>: a new instance with a new session.\<close>

definition new_LedgerX :: "string \<Rightarrow> world \<Rightarrow> nat \<times> world" where
  "new_LedgerX t w =
     (let self = next_ref w; s = Suc self
      in (self,
          w\<lparr>heap := (heap w)(self \<mapsto> LedgerXObj \<lparr>jwt_token = t, session = s\<rparr>,
                               s \<mapsto> SessionObj \<lparr>sent = []\<rparr>),
            next_ref := Suc s\<rparr>))"

text \<open>\<^verbatim>\<open>LedgerX._request\<close>, the shared dispatcher.\<close>

definition ledgerx_request ::
  "exchange \<Rightarrow> nat \<Rightarrow> string \<Rightarrow> string \<Rightarrow> pyval \<Rightarrow> world \<Rightarrow> (exn + pyval) \<times> world" where
  "ledgerx_request ex self method url data w =
     (case heap w self of
        Some (LedgerXObj c) \<Rightarrow>
          (let headers = PyDict [(''Authorization'', PyStr (''JWT '' @ jwt_token c))];
               opts = [(''headers'', headers), (''allow_redirects'', PyBool False)];
               opts = (if upper method \<in> set [''GET'', ''DELETE'']
                       then opts @ [(''params'', data)]
                       else opts @ [(''json'', data)])
           in case Session_request ex (session c) method url opts w of
                (Inl e, w1) \<Rightarrow> (Inl e, w1)
              | (Inr response, w1) \<Rightarrow>
                  (case raise_for_status response of
                     Inl (HTTPError error) \<Rightarrow>
                       (Inr (PyDict []),
                        w1\<lparr>stdout := stdout w1 @ ''error: '' @ '' '' @ error @ [CHR 0x0A]\<rparr>)
                   | Inl e \<Rightarrow> (Inl e, w1)
                   | Inr _ \<Rightarrow>
                       if body_text response \<noteq> '''' then (json response, w1)
                       else (Inr (PyDict [(''data'',
                               PyDict [(''status'', PyInt (status_code response))])]), w1)))
      | _ \<Rightarrow> (Inl AttributeError, w))"

section \<open>The endpoint methods\<close>

text \<open>
  An argument annotated \<^verbatim>\<open>Union[str, int]\<close> is formatted into the URL by an f-string
  and, in some methods, also stored in the parameter mapping.
\<close>

datatype str_or_int = OfStr string | OfInt int

fun format :: "str_or_int \<Rightarrow> string" where
  "format (OfStr s) = s"
| "format (OfInt i) = str_int i"

fun to_pyval :: "str_or_int \<Rightarrow> pyval" where
  "to_pyval (OfStr s) = PyStr s"
| "to_pyval (OfInt i) = PyInt i"

text \<open>
  Each method builds its parameter mapping, calls the dispatcher and returns
  \<^verbatim>\<open>response.get("data")\<close>. The other arguments are passed as given, so they are
  arbitrary Python values.
\<close>

definition get_contracts ::
  "exchange \<Rightarrow> nat \<Rightarrow> pyval \<Rightarrow> pyval \<Rightarrow> pyval \<Rightarrow> pyval \<Rightarrow> pyval \<Rightarrow> pyval \<Rightarrow> pyval \<Rightarrow> pyval \<Rightarrow> world
     \<Rightarrow> (exn + pyval) \<times> world" where
  "get_contracts ex self active contract_type derivative_type asset before_ts after_ts limit offset w =
     (let data = PyDict [(''active'', active),
                        (''contract_type'', contract_type),
                        (''derivative_type'', derivative_type),
                        (''asset'', asset),
                        (''before_ts'', before_ts),
                        (''after_ts'', after_ts),
                        (''limit'', limit),
                        (''offset'', offset)]
      in case ledgerx_request ex self ''GET''
             (''https://api.ledgerx.com/trading/contracts'') data w of
        (Inl e, w1) \<Rightarrow> (Inl e, w1)
      | (Inr response, w1) \<Rightarrow> (get response ''data'', w1))"

definition get_traded_contracts ::
  "exchange \<Rightarrow> nat \<Rightarrow> pyval \<Rightarrow> pyval \<Rightarrow> pyval \<Rightarrow> pyval \<Rightarrow> world
     \<Rightarrow> (exn + pyval) \<times> world" where
  "get_traded_contracts ex self derivative_type asset limit offset w =
     (let data = PyDict [(''derivative_type'', derivative_type),
                        (''asset'', asset),
                        (''limit'', limit),
                        (''offset'', offset)]
      in case ledgerx_request ex self ''GET''
             (''https://api.ledgerx.com/trading/contracts/traded'') data w of
        (Inl e, w1) \<Rightarrow> (Inl e, w1)
      | (Inr response, w1) \<Rightarrow> (get response ''data'', w1))"

definition get_contract_details ::
  "exchange \<Rightarrow> nat \<Rightarrow> str_or_int \<Rightarrow> world
     \<Rightarrow> (exn + pyval) \<times> world" where
  "get_contract_details ex self contract_id w =
     (case ledgerx_request ex self ''GET''
             (''https://api.ledgerx.com/trading/contracts/'' @ format contract_id) PyNone w of
        (Inl e, w1) \<Rightarrow> (Inl e, w1)
      | (Inr response, w1) \<Rightarrow> (get response ''data'', w1))"

definition get_contract_position ::
  "exchange \<Rightarrow> nat \<Rightarrow> str_or_int \<Rightarrow> world
     \<Rightarrow> (exn + pyval) \<times> world" where
  "get_contract_position ex self contract_id w =
     (case ledgerx_request ex self ''GET''
             (''https://api.ledgerx.com/trading/contracts/'' @ format contract_id @ ''/position'') PyNone w of
        (Inl e, w1) \<Rightarrow> (Inl e, w1)
      | (Inr response, w1) \<Rightarrow> (get response ''data'', w1))"

definition get_contract_ticker ::
  "exchange \<Rightarrow> nat \<Rightarrow> str_or_int \<Rightarrow> pyval \<Rightarrow> pyval \<Rightarrow> world
     \<Rightarrow> (exn + pyval) \<times> world" where
  "get_contract_ticker ex self contract_id time asset w =
     (let data = PyDict [(''time'', time),
                        (''asset'', asset)]
      in case ledgerx_request ex self ''GET''
             (''https://api.ledgerx.com/trading/contracts/'' @ format contract_id @ ''/ticker'') data w of
        (Inl e, w1) \<Rightarrow> (Inl e, w1)
      | (Inr response, w1) \<Rightarrow> (get response ''data'', w1))"

definition get_positions ::
  "exchange \<Rightarrow> nat \<Rightarrow> pyval \<Rightarrow> pyval \<Rightarrow> world
     \<Rightarrow> (exn + pyval) \<times> world" where
  "get_positions ex self limit offset w =
     (let data = PyDict [(''limit'', limit),
                        (''offset'', offset)]
      in case ledgerx_request ex self ''GET''
             (''https://api.ledgerx.com/trading/positions'') data w of
        (Inl e, w1) \<Rightarrow> (Inl e, w1)
      | (Inr response, w1) \<Rightarrow> (get response ''data'', w1))"

definition get_trades_for_position ::
  "exchange \<Rightarrow> nat \<Rightarrow> str_or_int \<Rightarrow> world
     \<Rightarrow> (exn + pyval) \<times> world" where
  "get_trades_for_position ex self contract_id w =
     (case ledgerx_request ex self ''GET''
             (''https://api.ledgerx.com/trading/positions/'' @ format contract_id @ ''/trades'') PyNone w of
        (Inl e, w1) \<Rightarrow> (Inl e, w1)
      | (Inr response, w1) \<Rightarrow> (get response ''data'', w1))"

definition get_open_orders ::
  "exchange \<Rightarrow> nat \<Rightarrow> world
     \<Rightarrow> (exn + pyval) \<times> world" where
  "get_open_orders ex self w =
     (case ledgerx_request ex self ''GET''
             (''https://trade.ledgerx.com/api/open-orders'') PyNone w of
        (Inl e, w1) \<Rightarrow> (Inl e, w1)
      | (Inr response, w1) \<Rightarrow> (get response ''data'', w1))"

definition create_order ::
  "exchange \<Rightarrow> nat \<Rightarrow> str_or_int \<Rightarrow> pyval \<Rightarrow> pyval \<Rightarrow> pyval \<Rightarrow> pyval \<Rightarrow> pyval \<Rightarrow> pyval \<Rightarrow> world
     \<Rightarrow> (exn + pyval) \<times> world" where
  "create_order ex self contract_id order_type is_ask size' price volatile swap_purpose w =
     (let data = PyDict [(''contract_id'', to_pyval contract_id),
                        (''order_type'', order_type),
                        (''is_ask'', is_ask),
                        (''size'', size'),
                        (''price'', price),
                        (''volatile'', volatile),
                        (''swap_purpose'', swap_purpose)]
      in case ledgerx_request ex self ''POST''
             (''https://trade.ledgerx.com/api/orders'') data w of
        (Inl e, w1) \<Rightarrow> (Inl e, w1)
      | (Inr response, w1) \<Rightarrow> (get response ''data'', w1))"

definition delete_all_orders ::
  "exchange \<Rightarrow> nat \<Rightarrow> world
     \<Rightarrow> (exn + pyval) \<times> world" where
  "delete_all_orders ex self w =
     (case ledgerx_request ex self ''DELETE''
             (''https://trade.ledgerx.com/api/orders'') PyNone w of
        (Inl e, w1) \<Rightarrow> (Inl e, w1)
      | (Inr response, w1) \<Rightarrow> (get response ''data'', w1))"

definition delete_single_order ::
  "exchange \<Rightarrow> nat \<Rightarrow> string \<Rightarrow> str_or_int \<Rightarrow> world
     \<Rightarrow> (exn + pyval) \<times> world" where
  "delete_single_order ex self mid contract_id w =
     (let data = PyDict [(''contract_id'', to_pyval contract_id)]
      in case ledgerx_request ex self ''DELETE''
             (''https://trade.ledgerx.com/api/orders/'' @ mid) data w of
        (Inl e, w1) \<Rightarrow> (Inl e, w1)
      | (Inr response, w1) \<Rightarrow> (get response ''data'', w1))"

definition patch_order ::
  "exchange \<Rightarrow> nat \<Rightarrow> string \<Rightarrow> str_or_int \<Rightarrow> pyval \<Rightarrow> pyval \<Rightarrow> world
     \<Rightarrow> (exn + pyval) \<times> world" where
  "patch_order ex self mid contract_id price size' w =
     (let data = PyDict [(''contract_id'', to_pyval contract_id),
                        (''price'', price),
                        (''size'', size')]
      in case ledgerx_request ex self ''DELETE''
             (''https://trade.ledgerx.com/api/orders/'' @ mid @ ''/edit'') data w of
        (Inl e, w1) \<Rightarrow> (Inl e, w1)
      | (Inr response, w1) \<Rightarrow> (get response ''data'', w1))"

definition get_current_book_state ::
  "exchange \<Rightarrow> nat \<Rightarrow> str_or_int \<Rightarrow> world
     \<Rightarrow> (exn + pyval) \<times> world" where
  "get_current_book_state ex self contract_id w =
     (case ledgerx_request ex self ''GET''
             (''https://trade.ledgerx.com/api/book-states/'' @ format contract_id) PyNone w of
        (Inl e, w1) \<Rightarrow> (Inl e, w1)
      | (Inr response, w1) \<Rightarrow> (get response ''data'', w1))"

text \<open>A call of one of the public methods, and a sequence of such calls on one client.\<close>

datatype call =
    GetContracts pyval pyval pyval pyval pyval pyval pyval pyval
  | GetTradedContracts pyval pyval pyval pyval
  | GetContractDetails str_or_int
  | GetContractPosition str_or_int
  | GetContractTicker str_or_int pyval pyval
  | GetPositions pyval pyval
  | GetTradesForPosition str_or_int
  | GetOpenOrders
  | CreateOrder str_or_int pyval pyval pyval pyval pyval pyval
  | DeleteAllOrders
  | DeleteSingleOrder string str_or_int
  | PatchOrder string str_or_int pyval pyval
  | GetCurrentBookState str_or_int

fun invoke :: "exchange \<Rightarrow> nat \<Rightarrow> call \<Rightarrow> world \<Rightarrow> (exn + pyval) \<times> world" where
  "invoke ex self (GetContracts a b c d e f g h) w = get_contracts ex self a b c d e f g h w"
| "invoke ex self (GetTradedContracts a b c d) w = get_traded_contracts ex self a b c d w"
| "invoke ex self (GetContractDetails i) w = get_contract_details ex self i w"
| "invoke ex self (GetContractPosition i) w = get_contract_position ex self i w"
| "invoke ex self (GetContractTicker i a b) w = get_contract_ticker ex self i a b w"
| "invoke ex self (GetPositions a b) w = get_positions ex self a b w"
| "invoke ex self (GetTradesForPosition i) w = get_trades_for_position ex self i w"
| "invoke ex self GetOpenOrders w = get_open_orders ex self w"
| "invoke ex self (CreateOrder i a b c d e f) w = create_order ex self i a b c d e f w"
| "invoke ex self DeleteAllOrders w = delete_all_orders ex self w"
| "invoke ex self (DeleteSingleOrder m i) w = delete_single_order ex self m i w"
| "invoke ex self (PatchOrder m i a b) w = patch_order ex self m i a b w"
| "invoke ex self (GetCurrentBookState i) w = get_current_book_state ex self i w"

fun run_calls :: "exchange \<Rightarrow> nat \<Rightarrow> call list \<Rightarrow> world \<Rightarrow> world" where
  "run_calls ex self [] w = w"
| "run_calls ex self (c # cs) w = run_calls ex self cs (snd (invoke ex self c w))"

section \<open>Observing a client in the store\<close>

definition client_ok :: "world \<Rightarrow> nat \<Rightarrow> bool" where
  "client_ok w self =
     (case heap w self of
        Some (LedgerXObj c) \<Rightarrow>
          (case heap w (session c) of Some (SessionObj ss) \<Rightarrow> True | _ \<Rightarrow> False)
      | _ \<Rightarrow> False)"

definition token_of :: "world \<Rightarrow> nat \<Rightarrow> string option" where
  "token_of w self =
     (case heap w self of Some (LedgerXObj c) \<Rightarrow> Some (jwt_token c) | _ \<Rightarrow> None)"

definition session_of :: "world \<Rightarrow> nat \<Rightarrow> nat option" where
  "session_of w self =
     (case heap w self of Some (LedgerXObj c) \<Rightarrow> Some (session c) | _ \<Rightarrow> None)"

definition requests_sent :: "world \<Rightarrow> nat \<Rightarrow> request list" where
  "requests_sent w self =
     (case heap w self of
        Some (LedgerXObj c) \<Rightarrow>
          (case heap w (session c) of Some (SessionObj ss) \<Rightarrow> sent ss | _ \<Rightarrow> [])
      | _ \<Rightarrow> [])"

text \<open>
  The outcome of the HTTP exchange of a call that took the store from \<open>w\<close> to \<open>w'\<close>:
  what the remote side answered to the request sent last.
\<close>

definition response_to :: "exchange \<Rightarrow> world \<Rightarrow> world \<Rightarrow> nat \<Rightarrow> exn + Response" where
  "response_to ex w w' self = ex (requests_sent w self) (last (requests_sent w' self))"

section \<open>A concrete client and some responses\<close>

text \<open>
  The store after \<^verbatim>\<open>LedgerX("secret")\<close> in an empty store, a remote side that always
  gives the same answer, and four answers: an error, a redirect, and two successes.
\<close>

definition world0 :: world where
  "world0 = \<lparr>heap = Map.empty, next_ref = 0, stdout = ''''\<rparr>"

definition world1 :: world where
  "world1 = snd (new_LedgerX ''secret'' world0)"

definition answering :: "Response \<Rightarrow> exchange" where
  "answering r = (\<lambda>h rq. Inr r)"

definition not_found :: Response where
  "not_found = \<lparr>status_code = 404, reason = ''Not Found'',
     resp_url = ''https://api.ledgerx.com/trading/contracts'',
     body_text = ''Not Found'', json = Inl JSONDecodeError\<rparr>"

definition found :: Response where
  "found = \<lparr>status_code = 302, reason = ''Found'',
     resp_url = ''https://api.ledgerx.com/trading/contracts'',
     body_text = '''', json = Inl JSONDecodeError\<rparr>"

definition no_content :: Response where
  "no_content = \<lparr>status_code = 204, reason = ''No Content'',
     resp_url = ''https://trade.ledgerx.com/api/orders'',
     body_text = '''', json = Inl JSONDecodeError\<rparr>"

definition ok_without_data :: Response where
  "ok_without_data = \<lparr>status_code = 200, reason = ''OK'',
     resp_url = ''https://api.ledgerx.com/trading/contracts'',
     body_text = ''{}'', json = Inr (PyDict [])\<rparr>"

section \<open>Basic facts about the dispatcher\<close>

lemma raise_for_status_cases:
  "raise_for_status r =
     (if 400 \<le> status_code r \<and> status_code r < 600
      then Inl (HTTPError (str_int (status_code r) @
             (if status_code r < 500 then '' Client Error: '' else '' Server Error: '') @
             reason r @ '' for url: '' @ resp_url r))
      else Inr ())"
  by (auto simp add: raise_for_status_def Let_def)

lemma client_ok_iff:
  "client_ok w self \<longleftrightarrow>
     (\<exists>c ss. heap w self = Some (LedgerXObj c) \<and> heap w (session c) = Some (SessionObj ss))"
proof (cases "heap w self")
  case None
  then show ?thesis by (simp add: client_ok_def)
next
  case (Some ob)
  show ?thesis
  proof (cases ob)
    case (SessionObj x)
    with Some show ?thesis by (simp add: client_ok_def)
  next
    case (LedgerXObj c)
    show ?thesis
    proof (cases "heap w (session c)")
      case None
      with Some LedgerXObj show ?thesis by (simp add: client_ok_def)
    next
      case inner: (Some ob')
      with Some LedgerXObj show ?thesis by (cases ob') (simp_all add: client_ok_def)
    qed
  qed
qed

lemma client_okE:
  assumes "client_ok w self"
  obtains c ss where "heap w self = Some (LedgerXObj c)"
    and "heap w (session c) = Some (SessionObj ss)" and "session c \<noteq> self"
proof -
  from assms obtain c ss where h: "heap w self = Some (LedgerXObj c)"
    "heap w (session c) = Some (SessionObj ss)"
    unfolding client_ok_iff by blast
  then have "session c \<noteq> self" by auto
  with h that show thesis by blast
qed

lemma ledgerx_request_unfold:
  assumes "heap w self = Some (LedgerXObj c)" and "heap w (session c) = Some (SessionObj ss)"
  shows "ledgerx_request ex self method url data w =
     (let rq = \<lparr>req_method = method, req_url = url,
                req_kwargs = [(''headers'', PyDict [(''Authorization'', PyStr (''JWT '' @ jwt_token c))]),
                              (''allow_redirects'', PyBool False),
                              (if upper method = ''GET'' \<or> upper method = ''DELETE'' then ''params'' else ''json'', data)]\<rparr>;
          w1 = w\<lparr>heap := (heap w)(session c \<mapsto> SessionObj (ss\<lparr>sent := sent ss @ [rq]\<rparr>))\<rparr>
      in case ex (sent ss) rq of
           Inl e \<Rightarrow> (Inl e, w1)
         | Inr response \<Rightarrow>
             if 400 \<le> status_code response \<and> status_code response < 600
             then (Inr (PyDict []),
                   w1\<lparr>stdout := stdout w @ ''error:  '' @ str_int (status_code response) @
                     (if status_code response < 500 then '' Client Error: '' else '' Server Error: '') @
                     reason response @ '' for url: '' @ resp_url response @ [CHR 0x0A]\<rparr>)
             else if body_text response \<noteq> '''' then (json response, w1)
             else (Inr (PyDict [(''data'', PyDict [(''status'', PyInt (status_code response))])]), w1))"
  using assms
  by (simp add: ledgerx_request_def Session_request_def Let_def raise_for_status_cases split: sum.splits)

lemma ledgerx_request_heap:
  "heap (snd (ledgerx_request ex self method url data w)) r =
     (case heap w self of
        Some (LedgerXObj c) \<Rightarrow>
          (case heap w (session c) of
             Some (SessionObj ss) \<Rightarrow>
               if r = session c
               then Some (SessionObj (ss\<lparr>sent := sent ss @
                      [\<lparr>req_method = method, req_url = url,
                        req_kwargs = [(''headers'', PyDict [(''Authorization'', PyStr (''JWT '' @ jwt_token c))]),
                              (''allow_redirects'', PyBool False),
                              (if upper method = ''GET'' \<or> upper method = ''DELETE'' then ''params'' else ''json'', data)]\<rparr>]\<rparr>))
               else heap w r
           | _ \<Rightarrow> heap w r)
      | _ \<Rightarrow> heap w r)"
proof (cases "heap w self")
  case None
  then show ?thesis by (simp add: ledgerx_request_def)
next
  case (Some ob)
  show ?thesis
  proof (cases ob)
    case (SessionObj x)
    with Some show ?thesis by (simp add: ledgerx_request_def)
  next
    case (LedgerXObj c)
    show ?thesis
    proof (cases "\<exists>ss. heap w (session c) = Some (SessionObj ss)")
      case True
      then obtain ss where ss: "heap w (session c) = Some (SessionObj ss)" by blast
      show ?thesis
        using Some LedgerXObj ss
        by (simp add: ledgerx_request_unfold [OF _ ss] Let_def split: sum.splits)
    next
      case False
      then show ?thesis
        using Some LedgerXObj
        by (auto simp add: ledgerx_request_def Session_request_def Let_def
            split: option.splits obj.splits)
    qed
  qed
qed

lemma ledgerx_request_client:
  "heap (snd (ledgerx_request ex self method url data w)) self = heap w self"
  by (auto simp add: ledgerx_request_heap split: option.splits obj.splits)

lemma ledgerx_request_frame:
  "session_of w self \<noteq> Some r \<Longrightarrow>
     heap (snd (ledgerx_request ex self method url data w)) r = heap w r"
  by (auto simp add: ledgerx_request_heap session_of_def split: option.splits obj.splits)

lemma ledgerx_request_client_ok:
  "client_ok w self \<Longrightarrow> client_ok (snd (ledgerx_request ex self method url data w)) self"
  by (erule client_okE)
     (simp add: client_ok_iff ledgerx_request_client ledgerx_request_heap)

lemma ledgerx_request_sent:
  assumes "client_ok w self" and "token_of w self = Some t"
  shows "requests_sent (snd (ledgerx_request ex self method url data w)) self =
     requests_sent w self @
       [\<lparr>req_method = method, req_url = url,
         req_kwargs = [(''headers'', PyDict [(''Authorization'', PyStr (''JWT '' @ t))]),
                       (''allow_redirects'', PyBool False),
                       (if upper method = ''GET'' \<or> upper method = ''DELETE''
                        then ''params'' else ''json'', data)]\<rparr>]"
  using assms(1)
proof (rule client_okE)
  fix c ss
  assume h: "heap w self = Some (LedgerXObj c)" "heap w (session c) = Some (SessionObj ss)"
    "session c \<noteq> self"
  with assms(2) have t: "jwt_token c = t" by (simp add: token_of_def)
  show ?thesis
    using h t
    by (simp add: requests_sent_def ledgerx_request_client ledgerx_request_heap)
qed

lemma client_ok_token: "client_ok w self \<Longrightarrow> \<exists>t. token_of w self = Some t"
  by (erule client_okE) (simp add: token_of_def)

section \<open>Endpoint methods and sequences of calls\<close>

lemmas endpoint_defs =
  get_contracts_def get_traded_contracts_def get_contract_details_def
  get_contract_position_def get_contract_ticker_def get_positions_def
  get_trades_for_position_def get_open_orders_def create_order_def delete_all_orders_def
  delete_single_order_def patch_order_def get_current_book_state_def

lemma snd_unwrap:
  "snd (case p of (Inl e, w1) \<Rightarrow> (Inl e, w1) | (Inr response, w1) \<Rightarrow> (f response, w1)) = snd p"
  by (cases p; cases "fst p") auto

lemma fst_unwrap:
  "fst (case p of (Inl e, w1) \<Rightarrow> (Inl e, w1) | (Inr response, w1) \<Rightarrow> (f response, w1)) =
     (case fst p of Inl e \<Rightarrow> Inl e | Inr response \<Rightarrow> f response)"
  by (cases p; cases "fst p") auto

lemma invoke_dispatch:
  "\<exists>m u d. invoke ex self c w =
     (case ledgerx_request ex self m u d w of
        (Inl e, w1) \<Rightarrow> (Inl e, w1)
      | (Inr response, w1) \<Rightarrow> (get response ''data'', w1))"
  by (cases c; hypsubst; unfold invoke.simps endpoint_defs Let_def; (intro exI, rule refl))

lemma invoke_dispatch_parts:
  "\<exists>m u d. snd (invoke ex self c w) = snd (ledgerx_request ex self m u d w) \<and>
     fst (invoke ex self c w) =
       (case fst (ledgerx_request ex self m u d w) of
          Inl e \<Rightarrow> Inl e
        | Inr response \<Rightarrow> get response ''data'')"
proof -
  obtain m u d where h: "invoke ex self c w =
     (case ledgerx_request ex self m u d w of
        (Inl e, w1) \<Rightarrow> (Inl e, w1)
      | (Inr response, w1) \<Rightarrow> (get response ''data'', w1))"
    using invoke_dispatch by blast
  show ?thesis
    unfolding h by (intro exI conjI; (rule snd_unwrap | rule fst_unwrap))
qed

lemma invoke_client: "heap (snd (invoke ex self c w)) self = heap w self"
  using invoke_dispatch_parts [of ex self c w] by (auto simp add: ledgerx_request_client)

lemma invoke_frame:
  "session_of w self \<noteq> Some r \<Longrightarrow> heap (snd (invoke ex self c w)) r = heap w r"
  using invoke_dispatch_parts [of ex self c w] by (auto simp add: ledgerx_request_frame)

lemma invoke_client_ok: "client_ok w self \<Longrightarrow> client_ok (snd (invoke ex self c w)) self"
  using invoke_dispatch_parts [of ex self c w] by (auto simp add: ledgerx_request_client_ok)

lemma token_of_cong: "heap w' self = heap w self \<Longrightarrow> token_of w' self = token_of w self"
  by (simp add: token_of_def)

lemma session_of_cong: "heap w' self = heap w self \<Longrightarrow> session_of w' self = session_of w self"
  by (simp add: session_of_def)

lemma run_calls_client: "heap (run_calls ex self cs w) self = heap w self"
  by (induction cs arbitrary: w) (simp_all add: invoke_client)

lemma run_calls_client_ok: "client_ok w self \<Longrightarrow> client_ok (run_calls ex self cs w) self"
  by (induction cs arbitrary: w) (simp_all add: invoke_client_ok)

lemma run_calls_frame:
  "session_of w self \<noteq> Some r \<Longrightarrow> heap (run_calls ex self cs w) r = heap w r"
proof (induction cs arbitrary: w)
  case Nil
  then show ?case by simp
next
  case (Cons c cs)
  have "session_of (snd (invoke ex self c w)) self = session_of w self"
    by (rule session_of_cong) (rule invoke_client)
  with Cons show ?case by (simp add: invoke_frame)
qed

lemma new_LedgerX_client:
  assumes "new_LedgerX t w0 = (self, w1)"
  shows "heap w1 self = Some (LedgerXObj \<lparr>jwt_token = t, session = Suc self\<rparr>)"
    and "heap w1 (Suc self) = Some (SessionObj \<lparr>sent = []\<rparr>)"
  using assms by (auto simp add: new_LedgerX_def Let_def)

lemma new_LedgerX_ok:
  assumes "new_LedgerX t w0 = (self, w1)"
  shows "client_ok w1 self" and "token_of w1 self = Some t"
    and "session_of w1 self = Some (Suc self)" and "requests_sent w1 self = []"
  using new_LedgerX_client [OF assms]
  by (simp_all add: client_ok_iff token_of_def session_of_def requests_sent_def)

section \<open>Facts about the concrete client\<close>

lemma world1_heap:
  "heap world1 = [0 \<mapsto> LedgerXObj \<lparr>jwt_token = ''secret'', session = Suc 0\<rparr>,
                  Suc 0 \<mapsto> SessionObj \<lparr>sent = []\<rparr>]"
  by (simp add: world1_def world0_def new_LedgerX_def Let_def)

lemma world1_client_ok: "client_ok world1 0"
  by (simp add: client_ok_iff world1_heap)

lemma world1_token: "token_of world1 0 = Some ''secret''"
  by (simp add: token_of_def world1_heap)

lemma world1_sent: "requests_sent world1 0 = []"
  by (simp add: requests_sent_def world1_heap)

lemma upper_examples:
  "upper ''post'' = ''POST''" "upper ''get'' = ''GET''" "upper ''Delete'' = ''DELETE''"
  "upper ''GET'' = ''GET''" "upper ''DELETE'' = ''DELETE''" "upper ''POST'' = ''POST''"
  "upper ''PUT'' = ''PUT''"
  by code_simp+

section \<open>Placement of the parameters\<close>

text \<open>
  Claim C1. A call \<^verbatim>\<open>_request(method, url, data)\<close> on a client sends exactly one request.
  If \<^verbatim>\<open>method.upper()\<close> is GET or DELETE, the keyword \<^verbatim>\<open>params\<close> carries \<open>data\<close> and
  there is no keyword \<^verbatim>\<open>json\<close>; for every other method (POST and PUT among them) the
  keyword \<^verbatim>\<open>json\<close> carries \<open>data\<close> and there is no keyword \<^verbatim>\<open>params\<close>.
\<close>

theorem request_placement:
  assumes "client_ok w self"
  shows "\<exists>rq. requests_sent (snd (ledgerx_request ex self method url data w)) self =
                 requests_sent w self @ [rq]
            \<and> req_method rq = method \<and> req_url rq = url
            \<and> (if upper method = ''GET'' \<or> upper method = ''DELETE''
               then map_of (req_kwargs rq) ''params'' = Some data
                    \<and> map_of (req_kwargs rq) ''json'' = None
               else map_of (req_kwargs rq) ''json'' = Some data
                    \<and> map_of (req_kwargs rq) ''params'' = None)"
proof -
  from assms obtain t where "token_of w self = Some t"
    using client_ok_token by blast
  with assms show ?thesis
    by (simp add: ledgerx_request_sent)
qed

text \<open>
  The same at a concrete client: a lower-case \<^verbatim>\<open>post\<close> goes to the JSON body, a
  mixed-case \<^verbatim>\<open>Delete\<close> to the query string.
\<close>

theorem request_placement_witness:
  "client_ok world1 0 \<and>
   (\<exists>rq. requests_sent (snd (ledgerx_request (answering no_content) 0 ''post''
            ''https://trade.ledgerx.com/api/orders'' (PyDict [(''size'', PyInt 1)]) world1)) 0 = [rq]
      \<and> req_method rq = ''post''
      \<and> map_of (req_kwargs rq) ''json'' = Some (PyDict [(''size'', PyInt 1)])
      \<and> map_of (req_kwargs rq) ''params'' = None) \<and>
   (\<exists>rq. requests_sent (snd (ledgerx_request (answering no_content) 0 ''Delete''
            ''https://trade.ledgerx.com/api/orders'' (PyDict [(''size'', PyInt 1)]) world1)) 0 = [rq]
      \<and> map_of (req_kwargs rq) ''params'' = Some (PyDict [(''size'', PyInt 1)])
      \<and> map_of (req_kwargs rq) ''json'' = None)"
  using request_placement [OF world1_client_ok, of "answering no_content" "''post''"
      "''https://trade.ledgerx.com/api/orders''" "PyDict [(''size'', PyInt 1)]"]
    request_placement [OF world1_client_ok, of "answering no_content" "''Delete''"
      "''https://trade.ledgerx.com/api/orders''" "PyDict [(''size'', PyInt 1)]"]
  by (simp add: world1_client_ok world1_sent upper_examples) blast

section \<open>What an endpoint method returns\<close>

text \<open>
  Claim C5. Every public endpoint method calls the dispatcher once and returns
  \<^verbatim>\<open>response.get("data")\<close> of its result: the value under the key \<^verbatim>\<open>data\<close> when the result
  is a mapping that has it, \<^verbatim>\<open>None\<close> when the mapping has no such key; an exception of
  the dispatcher passes through, and nothing else of the result is kept.
\<close>

theorem endpoint_returns_data_field:
  "\<exists>m u d. invoke ex self c w =
     (case ledgerx_request ex self m u d w of
        (Inl e, w1) \<Rightarrow> (Inl e, w1)
      | (Inr (PyDict kvs), w1) \<Rightarrow>
          (Inr (case map_of kvs ''data'' of Some v \<Rightarrow> v | None \<Rightarrow> PyNone), w1)
      | (Inr other, w1) \<Rightarrow> (Inl AttributeError, w1))"
proof -
  obtain m u d where h: "invoke ex self c w =
     (case ledgerx_request ex self m u d w of
        (Inl e, w1) \<Rightarrow> (Inl e, w1)
      | (Inr response, w1) \<Rightarrow> (get response ''data'', w1))"
    using invoke_dispatch by blast
  have "invoke ex self c w =
     (case ledgerx_request ex self m u d w of
        (Inl e, w1) \<Rightarrow> (Inl e, w1)
      | (Inr (PyDict kvs), w1) \<Rightarrow>
          (Inr (case map_of kvs ''data'' of Some v \<Rightarrow> v | None \<Rightarrow> PyNone), w1)
      | (Inr other, w1) \<Rightarrow> (Inl AttributeError, w1))"
    unfolding h
    by (auto split: prod.splits sum.splits pyval.splits option.splits)
  then show ?thesis by blast
qed

section \<open>The parameter mapping of get_contracts\<close>

text \<open>
  Claim C6. The mapping that \<^verbatim>\<open>get_contracts\<close> hands to the dispatcher, seen in the
  request that is sent, has exactly the eight keys \<^verbatim>\<open>active\<close>, \<^verbatim>\<open>contract_type\<close>,
  \<^verbatim>\<open>derivative_type\<close>, \<^verbatim>\<open>asset\<close>, \<^verbatim>\<open>before_ts\<close>, \<^verbatim>\<open>after_ts\<close>, \<^verbatim>\<open>limit\<close>, \<^verbatim>\<open>offset\<close>, each
  bound to the argument as given; an argument that is \<^verbatim>\<open>None\<close> stays in the mapping.
\<close>

theorem get_contracts_mapping:
  assumes "client_ok w self"
  shows "\<exists>rq d. requests_sent (snd (get_contracts ex self active contract_type derivative_type
                     asset before_ts after_ts limit offset w)) self = requests_sent w self @ [rq]
      \<and> map_of (req_kwargs rq) ''params'' = Some (PyDict d)
      \<and> map fst d = [''active'', ''contract_type'', ''derivative_type'', ''asset'',
                      ''before_ts'', ''after_ts'', ''limit'', ''offset'']
      \<and> map snd d = [active, contract_type, derivative_type, asset,
                      before_ts, after_ts, limit, offset]"
proof -
  from assms obtain t where "token_of w self = Some t"
    using client_ok_token by blast
  with assms show ?thesis
    by (simp add: get_contracts_def Let_def snd_unwrap ledgerx_request_sent upper_examples)
qed

text \<open>
  A call on a concrete client in which six of the arguments are \<^verbatim>\<open>None\<close>.
\<close>

theorem get_contracts_mapping_witness:
  "client_ok world1 0 \<and>
   (\<exists>rq d. requests_sent (snd (get_contracts (answering ok_without_data) 0
               PyNone PyNone (PyStr ''future_contract'') PyNone PyNone PyNone (PyInt 5) PyNone
               world1)) 0 = [rq]
      \<and> map_of (req_kwargs rq) ''params'' = Some (PyDict d)
      \<and> map fst d = [''active'', ''contract_type'', ''derivative_type'', ''asset'',
                      ''before_ts'', ''after_ts'', ''limit'', ''offset'']
      \<and> map snd d = [PyNone, PyNone, PyStr ''future_contract'', PyNone, PyNone, PyNone,
                      PyInt 5, PyNone])"
  using get_contracts_mapping [OF world1_client_ok, of "answering ok_without_data"
      PyNone PyNone "PyStr ''future_contract''" PyNone PyNone PyNone "PyInt 5" PyNone]
  by (simp add: world1_client_ok world1_sent)

section \<open>Cancel and replace\<close>

text \<open>
  Claim C10. \<^verbatim>\<open>patch_order(mid, contract_id, price, size)\<close> sends a request with method
  DELETE to \<^verbatim>\<open>https://trade.ledgerx.com/api/orders/{mid}/edit\<close>; the mapping of
  \<^verbatim>\<open>contract_id\<close>, \<^verbatim>\<open>price\<close> and \<^verbatim>\<open>size\<close> is in the query-string parameters and there is no
  JSON body.
\<close>

theorem patch_order_request:
  assumes "client_ok w self"
  shows "\<exists>rq. requests_sent (snd (patch_order ex self mid contract_id price size' w)) self =
                 requests_sent w self @ [rq]
      \<and> req_method rq = ''DELETE''
      \<and> req_url rq = ''https://trade.ledgerx.com/api/orders/'' @ mid @ ''/edit''
      \<and> map_of (req_kwargs rq) ''params'' =
          Some (PyDict [(''contract_id'', to_pyval contract_id), (''price'', price),
                        (''size'', size')])
      \<and> map_of (req_kwargs rq) ''json'' = None"
proof -
  from assms obtain t where "token_of w self = Some t"
    using client_ok_token by blast
  with assms show ?thesis
    by (simp add: patch_order_def Let_def snd_unwrap ledgerx_request_sent upper_examples)
qed

text \<open>
  Replacing order \<^verbatim>\<open>m1\<close> on a concrete client.
\<close>

theorem patch_order_request_witness:
  "client_ok world1 0 \<and>
   (\<exists>rq. requests_sent (snd (patch_order (answering no_content) 0 ''m1'' (OfInt 22202077)
              (PyInt 500) (PyInt 2) world1)) 0 = [rq]
      \<and> req_method rq = ''DELETE''
      \<and> req_url rq = ''https://trade.ledgerx.com/api/orders/m1/edit''
      \<and> map_of (req_kwargs rq) ''params'' =
          Some (PyDict [(''contract_id'', PyInt 22202077), (''price'', PyInt 500),
                        (''size'', PyInt 2)])
      \<and> map_of (req_kwargs rq) ''json'' = None)"
  using patch_order_request [OF world1_client_ok, of "answering no_content" "''m1''"
      "OfInt 22202077" "PyInt 500" "PyInt 2"]
  by (simp add: world1_client_ok world1_sent)

section \<open>Keyword arguments of every request\<close>

lemma ledgerx_request_kwargs:
  assumes "client_ok w self" and "token_of w self = Some t"
  shows "\<exists>rq. requests_sent (snd (ledgerx_request ex self method url data w)) self =
                 requests_sent w self @ [rq]
      \<and> map_of (req_kwargs rq) ''headers'' =
          Some (PyDict [(''Authorization'', PyStr (''JWT '' @ t))])
      \<and> map_of (req_kwargs rq) ''allow_redirects'' = Some (PyBool False)"
  using assms by (simp add: ledgerx_request_sent)

lemma invoke_kwargs:
  assumes "client_ok w self" and "token_of w self = Some t"
  shows "\<exists>rq. requests_sent (snd (invoke ex self c w)) self = requests_sent w self @ [rq]
      \<and> map_of (req_kwargs rq) ''headers'' =
          Some (PyDict [(''Authorization'', PyStr (''JWT '' @ t))])
      \<and> map_of (req_kwargs rq) ''allow_redirects'' = Some (PyBool False)"
proof -
  obtain m u d where "snd (invoke ex self c w) = snd (ledgerx_request ex self m u d w)"
    using invoke_dispatch_parts by blast
  then show ?thesis
    using ledgerx_request_kwargs [OF assms, of ex m u d] by simp
qed

lemma new_world1: "new_LedgerX ''secret'' world0 = (0, world1)"
  by (simp add: world1_def world0_def new_LedgerX_def Let_def)

lemma ledgerx_request_next_ref:
  "next_ref (snd (ledgerx_request ex self method url data w)) = next_ref w"
  by (simp add: ledgerx_request_def Session_request_def Let_def raise_for_status_cases
      split: option.splits obj.splits sum.splits)

text \<open>
  Claim C7. On a client constructed with the token \<open>t\<close>, after any earlier calls, every
  call of the dispatcher and every call of an endpoint method sends a request whose
  \<^verbatim>\<open>Authorization\<close> header is the string \<^verbatim>\<open>JWT\<close>, a space and \<open>t\<close>.
\<close>

theorem authorization_header:
  assumes "new_LedgerX t w0 = (self, w1)" and "w = run_calls prior self cs w1"
  shows "(\<exists>rq. requests_sent (snd (ledgerx_request ex self m u d w)) self =
                 requests_sent w self @ [rq]
            \<and> map_of (req_kwargs rq) ''headers'' =
                Some (PyDict [(''Authorization'', PyStr (''JWT '' @ t))]))
       \<and> (\<exists>rq. requests_sent (snd (invoke ex self c w)) self = requests_sent w self @ [rq]
            \<and> map_of (req_kwargs rq) ''headers'' =
                Some (PyDict [(''Authorization'', PyStr (''JWT '' @ t))]))"
proof -
  have ok: "client_ok w self"
    unfolding assms(2) by (rule run_calls_client_ok) (rule new_LedgerX_ok [OF assms(1)])
  have "token_of w self = token_of w1 self"
    unfolding assms(2) by (rule token_of_cong) (rule run_calls_client)
  then have tok: "token_of w self = Some t"
    by (simp add: new_LedgerX_ok [OF assms(1)])
  show ?thesis
    using ledgerx_request_kwargs [OF ok tok, of ex m u d]
      invoke_kwargs [OF ok tok, of ex c]
    by blast
qed

text \<open>
  A client with the token \<^verbatim>\<open>secret\<close>, after two earlier calls.
\<close>

theorem authorization_header_witness:
  "new_LedgerX ''secret'' world0 = (0, world1) \<and>
   (\<exists>rq. requests_sent (snd (ledgerx_request (answering no_content) 0 ''PUT''
              ''https://trade.ledgerx.com/api/orders'' PyNone
              (run_calls (answering not_found) 0 [GetOpenOrders, DeleteAllOrders] world1))) 0 =
            requests_sent (run_calls (answering not_found) 0 [GetOpenOrders, DeleteAllOrders]
              world1) 0 @ [rq]
      \<and> map_of (req_kwargs rq) ''headers'' =
          Some (PyDict [(''Authorization'', PyStr ''JWT secret'')])) \<and>
   (\<exists>rq. requests_sent (snd (invoke (answering no_content) 0 GetOpenOrders
              (run_calls (answering not_found) 0 [GetOpenOrders, DeleteAllOrders] world1))) 0 =
            requests_sent (run_calls (answering not_found) 0 [GetOpenOrders, DeleteAllOrders]
              world1) 0 @ [rq]
      \<and> map_of (req_kwargs rq) ''headers'' =
          Some (PyDict [(''Authorization'', PyStr ''JWT secret'')]))"
  using authorization_header [OF new_world1 refl, where prior = "answering not_found"
      and cs = "[GetOpenOrders, DeleteAllOrders]" and ex = "answering no_content"
      and m = "''PUT''" and u = "''https://trade.ledgerx.com/api/orders''"
      and d = PyNone and c = GetOpenOrders]
  by (simp add: new_world1)

text \<open>
  Claim C8. Every request sent by the dispatcher, for any method and URL, and so every
  request of an endpoint method, has \<^verbatim>\<open>allow_redirects\<close> set to \<^verbatim>\<open>False\<close>.
\<close>

theorem redirects_disabled:
  assumes "client_ok w self"
  shows "(\<exists>rq. requests_sent (snd (ledgerx_request ex self method url data w)) self =
                 requests_sent w self @ [rq]
            \<and> map_of (req_kwargs rq) ''allow_redirects'' = Some (PyBool False))
       \<and> (\<exists>rq. requests_sent (snd (invoke ex self c w)) self = requests_sent w self @ [rq]
            \<and> map_of (req_kwargs rq) ''allow_redirects'' = Some (PyBool False))"
proof -
  from assms obtain t where tok: "token_of w self = Some t"
    using client_ok_token by blast
  show ?thesis
    using ledgerx_request_kwargs [OF assms tok, of ex "method" "url" data]
      invoke_kwargs [OF assms tok, of ex c]
    by blast
qed

text \<open>
  A GET of the dispatcher and a POST through \<^verbatim>\<open>create_order\<close>.
\<close>

theorem redirects_disabled_witness:
  "client_ok world1 0 \<and>
   (\<exists>rq. requests_sent (snd (ledgerx_request (answering found) 0 ''GET''
              ''https://api.ledgerx.com/trading/contracts'' PyNone world1)) 0 = [rq]
      \<and> map_of (req_kwargs rq) ''allow_redirects'' = Some (PyBool False)) \<and>
   (\<exists>rq. requests_sent (snd (invoke (answering found) 0
              (CreateOrder (OfInt 1) (PyStr ''limit'') (PyBool False) (PyInt 1) (PyInt 100)
                 (PyBool False) (PyStr ''undisclosed'')) world1)) 0 = [rq]
      \<and> map_of (req_kwargs rq) ''allow_redirects'' = Some (PyBool False))"
  using redirects_disabled [OF world1_client_ok, of "answering found" "''GET''"
      "''https://api.ledgerx.com/trading/contracts''" PyNone
      "CreateOrder (OfInt 1) (PyStr ''limit'') (PyBool False) (PyInt 1) (PyInt 100)
                 (PyBool False) (PyStr ''undisclosed'')"]
  by (simp add: world1_client_ok world1_sent)

section \<open>The result of a call, from the response\<close>

lemma ledgerx_request_result:
  assumes "client_ok w self"
    and "response_to ex w (snd (ledgerx_request ex self method url data w)) self = Inr resp"
  shows "fst (ledgerx_request ex self method url data w) =
           (if 400 \<le> status_code resp \<and> status_code resp < 600 then Inr (PyDict [])
            else if body_text resp \<noteq> '''' then json resp
            else Inr (PyDict [(''data'', PyDict [(''status'', PyInt (status_code resp))])]))"
    and "stdout (snd (ledgerx_request ex self method url data w)) =
           (case raise_for_status resp of
              Inl (HTTPError msg) \<Rightarrow> stdout w @ ''error:  '' @ msg @ [CHR 0x0A]
            | _ \<Rightarrow> stdout w)"
proof -
  from assms(1) obtain c ss where h: "heap w self = Some (LedgerXObj c)"
    "heap w (session c) = Some (SessionObj ss)" "session c \<noteq> self"
    by (rule client_okE)
  define rq where "rq = \<lparr>req_method = method, req_url = url,
      req_kwargs = [(''headers'', PyDict [(''Authorization'', PyStr (''JWT '' @ jwt_token c))]),
                    (''allow_redirects'', PyBool False),
                    (if upper method = ''GET'' \<or> upper method = ''DELETE''
                     then ''params'' else ''json'', data)]\<rparr>"
  have tok: "token_of w self = Some (jwt_token c)"
    using h by (simp add: token_of_def)
  have s0: "requests_sent w self = sent ss"
    using h by (simp add: requests_sent_def)
  have "requests_sent (snd (ledgerx_request ex self method url data w)) self =
      requests_sent w self @ [rq]"
    unfolding rq_def by (rule ledgerx_request_sent [OF assms(1) tok])
  with assms(2) s0 have r: "ex (sent ss) rq = Inr resp"
    by (simp add: response_to_def)
  have u: "ledgerx_request ex self method url data w =
     (let w1 = w\<lparr>heap := (heap w)(session c \<mapsto> SessionObj (ss\<lparr>sent := sent ss @ [rq]\<rparr>))\<rparr>
      in if 400 \<le> status_code resp \<and> status_code resp < 600
         then (Inr (PyDict []),
               w1\<lparr>stdout := stdout w @ ''error:  '' @ str_int (status_code resp) @
                 (if status_code resp < 500 then '' Client Error: '' else '' Server Error: '') @
                 reason resp @ '' for url: '' @ resp_url resp @ [CHR 0x0A]\<rparr>)
         else if body_text resp \<noteq> '''' then (json resp, w1)
         else (Inr (PyDict [(''data'', PyDict [(''status'', PyInt (status_code resp))])]), w1))"
    using r unfolding ledgerx_request_unfold [OF h(1) h(2)] rq_def [symmetric] Let_def
    by simp
  show "fst (ledgerx_request ex self method url data w) =
           (if 400 \<le> status_code resp \<and> status_code resp < 600 then Inr (PyDict [])
            else if body_text resp \<noteq> '''' then json resp
            else Inr (PyDict [(''data'', PyDict [(''status'', PyInt (status_code resp))])]))"
    unfolding u Let_def by simp
  show "stdout (snd (ledgerx_request ex self method url data w)) =
           (case raise_for_status resp of
              Inl (HTTPError msg) \<Rightarrow> stdout w @ ''error:  '' @ msg @ [CHR 0x0A]
            | _ \<Rightarrow> stdout w)"
    unfolding u Let_def raise_for_status_cases by simp
qed

lemma invoke_result:
  assumes "client_ok w self"
    and "response_to ex w (snd (invoke ex self c w)) self = Inr resp"
  shows "fst (invoke ex self c w) =
           (if 400 \<le> status_code resp \<and> status_code resp < 600 then Inr PyNone
            else if body_text resp \<noteq> ''''
            then (case json resp of Inl e \<Rightarrow> Inl e | Inr response \<Rightarrow> get response ''data'')
            else Inr (PyDict [(''status'', PyInt (status_code resp))]))"
    and "stdout (snd (invoke ex self c w)) =
           (case raise_for_status resp of
              Inl (HTTPError msg) \<Rightarrow> stdout w @ ''error:  '' @ msg @ [CHR 0x0A]
            | _ \<Rightarrow> stdout w)"
proof -
  obtain m u d where p: "snd (invoke ex self c w) = snd (ledgerx_request ex self m u d w)"
    "fst (invoke ex self c w) =
       (case fst (ledgerx_request ex self m u d w) of
          Inl e \<Rightarrow> Inl e
        | Inr response \<Rightarrow> get response ''data'')"
    using invoke_dispatch_parts by blast
  from assms(2) have r: "response_to ex w (snd (ledgerx_request ex self m u d w)) self = Inr resp"
    by (simp add: p(1))
  show "fst (invoke ex self c w) =
           (if 400 \<le> status_code resp \<and> status_code resp < 600 then Inr PyNone
            else if body_text resp \<noteq> ''''
            then (case json resp of Inl e \<Rightarrow> Inl e | Inr response \<Rightarrow> get response ''data'')
            else Inr (PyDict [(''status'', PyInt (status_code resp))]))"
    unfolding p(2) ledgerx_request_result(1) [OF assms(1) r] by simp
  show "stdout (snd (invoke ex self c w)) =
           (case raise_for_status resp of
              Inl (HTTPError msg) \<Rightarrow> stdout w @ ''error:  '' @ msg @ [CHR 0x0A]
            | _ \<Rightarrow> stdout w)"
    unfolding p(1) by (rule ledgerx_request_result(2) [OF assms(1) r])
qed

lemma response_to_answering: "response_to (answering r) w w' self = Inr r"
  by (simp add: response_to_def answering_def)

section \<open>Empty response bodies\<close>

text \<open>
  Claim C4. When the response has a 2xx status and an empty body, the dispatcher returns
  the payload \<^verbatim>\<open>{"data": {"status": s}}\<close> with \<open>s\<close> the status code, whatever
  \<^verbatim>\<open>response.json()\<close> would give (it is not consulted), and the endpoint method returns
  \<^verbatim>\<open>{"status": s}\<close>.
\<close>

theorem empty_body_status_payload:
  assumes "client_ok w self"
    and "200 \<le> status_code resp" and "status_code resp < 300" and "body_text resp = ''''"
  shows "(response_to ex w (snd (ledgerx_request ex self method url data w)) self = Inr resp \<longrightarrow>
            fst (ledgerx_request ex self method url data w) =
              Inr (PyDict [(''data'', PyDict [(''status'', PyInt (status_code resp))])]))
       \<and> (response_to ex w (snd (invoke ex self c w)) self = Inr resp \<longrightarrow>
            fst (invoke ex self c w) = Inr (PyDict [(''status'', PyInt (status_code resp))]))"
  using assms
  by (simp add: ledgerx_request_result(1) invoke_result(1))

text \<open>
  A 204 answer to \<^verbatim>\<open>delete_all_orders\<close>, whose body is not JSON.
\<close>

theorem empty_body_status_payload_witness:
  "client_ok world1 0 \<and> 200 \<le> status_code no_content \<and> status_code no_content < 300
   \<and> body_text no_content = '''' \<and> json no_content = Inl JSONDecodeError
   \<and> response_to (answering no_content) world1
        (snd (ledgerx_request (answering no_content) 0 ''DELETE''
           ''https://trade.ledgerx.com/api/orders'' PyNone world1)) 0 = Inr no_content
   \<and> fst (ledgerx_request (answering no_content) 0 ''DELETE''
           ''https://trade.ledgerx.com/api/orders'' PyNone world1) =
        Inr (PyDict [(''data'', PyDict [(''status'', PyInt 204)])])
   \<and> response_to (answering no_content) world1
        (snd (invoke (answering no_content) 0 DeleteAllOrders world1)) 0 = Inr no_content
   \<and> fst (invoke (answering no_content) 0 DeleteAllOrders world1) =
        Inr (PyDict [(''status'', PyInt 204)])"
  using empty_body_status_payload [OF world1_client_ok, of no_content "answering no_content"
      "''DELETE''" "''https://trade.ledgerx.com/api/orders''" PyNone DeleteAllOrders]
  by (simp add: world1_client_ok response_to_answering no_content_def)

section \<open>HTTP errors\<close>

text \<open>
  Claim C2, as amended. When the response has a status code from 400 to 599, the codes
  for which \<^verbatim>\<open>raise_for_status\<close> raises, the \<open>HTTPError\<close> is caught in the dispatcher, the
  line \<^verbatim>\<open>error:\<close> with the message is printed, and the dispatcher returns the empty
  mapping; every endpoint method then returns \<^verbatim>\<open>None\<close>, not an exception.
\<close>

theorem http_error_swallowed:
  assumes "client_ok w self" and "400 \<le> status_code resp" and "status_code resp < 600"
  shows "(response_to ex w (snd (ledgerx_request ex self method url data w)) self = Inr resp \<longrightarrow>
            fst (ledgerx_request ex self method url data w) = Inr (PyDict []) \<and>
            (\<exists>msg. raise_for_status resp = Inl (HTTPError msg) \<and>
               stdout (snd (ledgerx_request ex self method url data w)) =
                 stdout w @ ''error:  '' @ msg @ [CHR 0x0A]))
       \<and> (response_to ex w (snd (invoke ex self c w)) self = Inr resp \<longrightarrow>
            fst (invoke ex self c w) = Inr PyNone)"
  using assms
  by (simp add: ledgerx_request_result invoke_result(1) raise_for_status_cases)

text \<open>
  A 404 answer.
\<close>

theorem http_error_swallowed_witness:
  "client_ok world1 0 \<and> 400 \<le> status_code not_found \<and> status_code not_found < 600
   \<and> response_to (answering not_found) world1
        (snd (ledgerx_request (answering not_found) 0 ''GET''
           ''https://api.ledgerx.com/trading/contracts'' PyNone world1)) 0 = Inr not_found
   \<and> fst (ledgerx_request (answering not_found) 0 ''GET''
           ''https://api.ledgerx.com/trading/contracts'' PyNone world1) = Inr (PyDict [])
   \<and> (\<exists>msg. raise_for_status not_found = Inl (HTTPError msg) \<and>
         stdout (snd (ledgerx_request (answering not_found) 0 ''GET''
           ''https://api.ledgerx.com/trading/contracts'' PyNone world1)) =
         stdout world1 @ ''error:  '' @ msg @ [CHR 0x0A])
   \<and> response_to (answering not_found) world1
        (snd (invoke (answering not_found) 0 GetOpenOrders world1)) 0 = Inr not_found
   \<and> fst (invoke (answering not_found) 0 GetOpenOrders world1) = Inr PyNone"
  using http_error_swallowed [OF world1_client_ok, of not_found "answering not_found"
      "''GET''" "''https://api.ledgerx.com/trading/contracts''" PyNone GetOpenOrders]
  by (simp add: world1_client_ok response_to_answering not_found_def)

text \<open>
  Claim C2 as stated speaks of every status code outside 200 to 299. A 302 answer, which
  the client receives as it is because redirects are not followed, raises nothing: with
  an empty body the dispatcher returns the status payload, not the empty mapping, and
  prints nothing.
\<close>

theorem http_error_swallowed_counterexample:
  "client_ok world1 0
   \<and> response_to (answering found) world1
        (snd (ledgerx_request (answering found) 0 ''GET''
           ''https://api.ledgerx.com/trading/contracts'' PyNone world1)) 0 = Inr found
   \<and> status_code found = 302
   \<and> \<not> (200 \<le> status_code found \<and> status_code found < 300)
   \<and> fst (ledgerx_request (answering found) 0 ''GET''
           ''https://api.ledgerx.com/trading/contracts'' PyNone world1) =
        Inr (PyDict [(''data'', PyDict [(''status'', PyInt 302)])])
   \<and> fst (ledgerx_request (answering found) 0 ''GET''
           ''https://api.ledgerx.com/trading/contracts'' PyNone world1) \<noteq> Inr (PyDict [])
   \<and> stdout (snd (ledgerx_request (answering found) 0 ''GET''
           ''https://api.ledgerx.com/trading/contracts'' PyNone world1)) = stdout world1"
  by (simp add: world1_client_ok response_to_answering
      ledgerx_request_result [OF world1_client_ok response_to_answering]
      raise_for_status_cases found_def)

section \<open>A failure and an empty success\<close>

text \<open>
  Claim C3, as amended. For every endpoint method, what it returns when the response
  has a status code from 400 to 599 is what it returns for any 2xx response whose parsed
  JSON object has no key \<^verbatim>\<open>data\<close>, namely \<^verbatim>\<open>None\<close>: the return value alone does not tell
  such a failure from an empty dataset.
\<close>

theorem failure_looks_like_empty_success:
  assumes "client_ok w self"
    and "response_to ex1 w (snd (invoke ex1 self c w)) self = Inr failed"
    and "400 \<le> status_code failed" and "status_code failed < 600"
    and "response_to ex2 w (snd (invoke ex2 self c w)) self = Inr bare"
    and "200 \<le> status_code bare" and "status_code bare < 300"
    and "body_text bare \<noteq> ''''" and "json bare = Inr (PyDict kvs)"
    and "map_of kvs ''data'' = None"
  shows "fst (invoke ex1 self c w) = fst (invoke ex2 self c w)
       \<and> fst (invoke ex1 self c w) = Inr PyNone"
  using assms(3,4,6-10)
  by (simp add: invoke_result(1) [OF assms(1) assms(2)] invoke_result(1) [OF assms(1) assms(5)])

text \<open>
  A 404 answer and a 200 answer with the body \<^verbatim>\<open>{}\<close>.
\<close>

theorem failure_looks_like_empty_success_witness:
  "client_ok world1 0
   \<and> response_to (answering not_found) world1
        (snd (invoke (answering not_found) 0 GetOpenOrders world1)) 0 = Inr not_found
   \<and> 400 \<le> status_code not_found \<and> status_code not_found < 600
   \<and> response_to (answering ok_without_data) world1
        (snd (invoke (answering ok_without_data) 0 GetOpenOrders world1)) 0 = Inr ok_without_data
   \<and> 200 \<le> status_code ok_without_data \<and> status_code ok_without_data < 300
   \<and> body_text ok_without_data \<noteq> '''' \<and> json ok_without_data = Inr (PyDict [])
   \<and> map_of ([] :: (string \<times> pyval) list) ''data'' = None
   \<and> fst (invoke (answering not_found) 0 GetOpenOrders world1) =
       fst (invoke (answering ok_without_data) 0 GetOpenOrders world1)
   \<and> fst (invoke (answering not_found) 0 GetOpenOrders world1) = Inr PyNone"
proof -
  have s: "400 \<le> status_code not_found" "status_code not_found < 600"
    "200 \<le> status_code ok_without_data" "status_code ok_without_data < 300"
    "body_text ok_without_data \<noteq> ''''" "json ok_without_data = Inr (PyDict [])"
    by (simp_all add: not_found_def ok_without_data_def)
  have m: "map_of ([] :: (string \<times> pyval) list) ''data'' = None"
    by simp
  note t = failure_looks_like_empty_success [OF world1_client_ok response_to_answering
      s(1) s(2) response_to_answering s(3) s(4) s(5) s(6) m, of GetOpenOrders]
  from t s m world1_client_ok show ?thesis
    by (auto simp add: response_to_answering simp del: invoke.simps)
qed

text \<open>
  Claim C3 as stated speaks of every status code outside 200 to 299. For a 302 answer
  with an empty body \<^verbatim>\<open>get_contracts\<close> returns \<^verbatim>\<open>{"status": 302}\<close>, while for a 2xx answer
  whose JSON object has no key \<^verbatim>\<open>data\<close> it returns \<^verbatim>\<open>None\<close>.
\<close>

theorem failure_looks_like_empty_success_counterexample:
  "client_ok world1 0
   \<and> response_to (answering found) world1
        (snd (get_contracts (answering found) 0 PyNone PyNone PyNone PyNone PyNone PyNone
           PyNone PyNone world1)) 0 = Inr found
   \<and> \<not> (200 \<le> status_code found \<and> status_code found < 300)
   \<and> response_to (answering ok_without_data) world1
        (snd (get_contracts (answering ok_without_data) 0 PyNone PyNone PyNone PyNone PyNone
           PyNone PyNone PyNone world1)) 0 = Inr ok_without_data
   \<and> 200 \<le> status_code ok_without_data \<and> status_code ok_without_data < 300
   \<and> json ok_without_data = Inr (PyDict [])
   \<and> fst (get_contracts (answering found) 0 PyNone PyNone PyNone PyNone PyNone PyNone
           PyNone PyNone world1) = Inr (PyDict [(''status'', PyInt 302)])
   \<and> fst (get_contracts (answering ok_without_data) 0 PyNone PyNone PyNone PyNone PyNone
           PyNone PyNone PyNone world1) = Inr PyNone
   \<and> fst (get_contracts (answering found) 0 PyNone PyNone PyNone PyNone PyNone PyNone
           PyNone PyNone world1)
       \<noteq> fst (get_contracts (answering ok_without_data) 0 PyNone PyNone PyNone PyNone PyNone
           PyNone PyNone PyNone world1)"
proof -
  have a: "fst (invoke (answering found) 0
      (GetContracts PyNone PyNone PyNone PyNone PyNone PyNone PyNone PyNone) world1) =
      Inr (PyDict [(''status'', PyInt 302)])"
    by (simp only: invoke_result(1) [OF world1_client_ok response_to_answering])
       (simp add: found_def)
  have b: "fst (invoke (answering ok_without_data) 0
      (GetContracts PyNone PyNone PyNone PyNone PyNone PyNone PyNone PyNone) world1) =
      Inr PyNone"
    by (simp only: invoke_result(1) [OF world1_client_ok response_to_answering])
       (simp add: ok_without_data_def)
  from a b show ?thesis
    by (simp add: world1_client_ok response_to_answering found_def ok_without_data_def)
qed

section \<open>The state of the client\<close>

lemma invoke_next_ref: "next_ref (snd (invoke ex self c w)) = next_ref w"
  using invoke_dispatch_parts [of ex self c w] by (auto simp add: ledgerx_request_next_ref)

lemma run_calls_next_ref: "next_ref (run_calls ex self cs w) = next_ref w"
  by (induction cs arbitrary: w) (simp_all add: invoke_next_ref)

text \<open>
  Claim C9. After any sequence of endpoint calls on a client constructed with the token
  \<open>t\<close>, and after a further call of the dispatcher or of an endpoint method, the instance
  still has the token \<open>t\<close> and the reference to the session made at construction. Every
  object of the store other than that session is as it was after construction, and no
  object is allocated: the session is the only state that the calls change.
\<close>

theorem client_fields_unchanged:
  assumes "new_LedgerX t w0 = (self, w1)" and "w = run_calls prior self cs w1"
  shows "heap w self = Some (LedgerXObj \<lparr>jwt_token = t, session = Suc self\<rparr>)
       \<and> heap w self = heap w1 self
       \<and> heap (snd (ledgerx_request ex self m u d w)) self = heap w1 self
       \<and> heap (snd (invoke ex self c w)) self = heap w1 self
       \<and> (\<forall>r. r \<noteq> Suc self \<longrightarrow> heap w r = heap w1 r)
       \<and> next_ref w = next_ref w1"
proof -
  have s: "session_of w1 self = Some (Suc self)"
    by (rule new_LedgerX_ok [OF assms(1)])
  have "\<forall>r. r \<noteq> Suc self \<longrightarrow> heap w r = heap w1 r"
    unfolding assms(2) using s by (auto intro: run_calls_frame)
  moreover have "heap w self = heap w1 self"
    unfolding assms(2) by (rule run_calls_client)
  ultimately show ?thesis
    by (simp add: ledgerx_request_client invoke_client new_LedgerX_client [OF assms(1)]
        assms(2) run_calls_next_ref)
qed

text \<open>
  After two calls on a concrete client: the instance is the same, an unrelated address is
  untouched, and the session has recorded requests.
\<close>

theorem client_fields_unchanged_witness:
  "new_LedgerX ''secret'' world0 = (0, world1)
   \<and> heap (run_calls (answering not_found) 0 [GetOpenOrders, DeleteAllOrders] world1) 0 =
       Some (LedgerXObj \<lparr>jwt_token = ''secret'', session = Suc 0\<rparr>)
   \<and> heap (snd (invoke (answering no_content) 0 GetOpenOrders
         (run_calls (answering not_found) 0 [GetOpenOrders, DeleteAllOrders] world1))) 0 =
       heap world1 0
   \<and> (7 :: nat) \<noteq> Suc 0
   \<and> heap (run_calls (answering not_found) 0 [GetOpenOrders, DeleteAllOrders] world1) 7 =
       heap world1 7
   \<and> requests_sent (run_calls (answering not_found) 0 [GetOpenOrders, DeleteAllOrders]
         world1) 0 \<noteq> requests_sent world1 0"
proof -
  have n: "requests_sent (run_calls (answering not_found) 0 [GetOpenOrders, DeleteAllOrders]
         world1) 0 \<noteq> requests_sent world1 0"
    by (simp add: world1_sent get_open_orders_def delete_all_orders_def snd_unwrap
        ledgerx_request_sent [OF _ token_of_cong [OF ledgerx_request_client, THEN trans]]
        ledgerx_request_sent [OF world1_client_ok world1_token]
        ledgerx_request_client_ok world1_client_ok world1_token)
  show ?thesis
    using client_fields_unchanged [OF new_world1 refl, where prior = "answering not_found"
      and cs = "[GetOpenOrders, DeleteAllOrders]" and ex = "answering no_content"
      and m = "''PUT''" and u = "''https://trade.ledgerx.com/api/orders''"
      and d = PyNone and c = GetOpenOrders] n
    by (simp add: new_world1)
qed

end
